theory Spec2Isabelle
  imports Main
begin

section \<open>Data model\<close>

text \<open>
  The extension exists in two variants: \<^verbatim>\<open>src/unnamed/part_000\<close> (the extended variant,
  with interface staging and package-source discovery) and \<^verbatim>\<open>src/src/extension.ts\<close>
  (the lean variant, which locates \<^verbatim>\<open>dfx\<close> on the search path). Definitions taken from
  the lean variant carry the suffix \<open>_lean\<close>; \<^verbatim>\<open>isDfxProject\<close> is the same text in both.
\<close>

subsection \<open>Types declared by the source\<close>

text \<open>\<^verbatim>\<open>interface DfxCanisters { [key: string]: { main: string } }\<close>\<close>

record DfxCanister =
  main :: string

text \<open>
  \<^verbatim>\<open>type DfxConfig = { canisters: DfxCanisters }\<close>. The object is kept as the list of its
  own properties, in the order \<^verbatim>\<open>Object.keys\<close> enumerates them.
\<close>

record DfxConfig =
  canisters :: "(string \<times> DfxCanister) list"

text \<open>\<^verbatim>\<open>type DfxManifestCanister = { candid_path: string; canister_id: string }\<close>\<close>

record DfxManifestCanister =
  candid_path :: string
  canister_id :: string

text \<open>
  \<^verbatim>\<open>type DfxCanisterManifest = { canisters: Record<string, DfxManifestCanister> }\<close>, in
  the order \<^verbatim>\<open>Object.entries\<close> enumerates it.
\<close>

record DfxCanisterManifest =
  manifest_canisters :: "(string \<times> DfxManifestCanister) list"

text \<open>The settings read through \<^verbatim>\<open>workspace.getConfiguration("motoko")\<close>.\<close>

record config =
  standaloneBinary :: string
  standaloneArguments :: string
  canister :: string
  dfx :: string

subsection \<open>Values, errors and effects\<close>

text \<open>
  An element of an argument array. The arrays are typed \<^verbatim>\<open>string[]\<close>, but the extended
  variant can store \<^verbatim>\<open>undefined\<close> in one (see \<open>start\<close>).
\<close>

datatype arg = Str string | Undefined

text \<open>The \<^verbatim>\<open>serverCommand\<close> object literal, used for both \<^verbatim>\<open>run\<close> and \<^verbatim>\<open>debug\<close>.\<close>

record serverCommand =
  command :: string
  args :: "arg list"

text \<open>The exceptions that the calls of the source can throw.\<close>

datatype error =
    TypeError
  | SyntaxError
  | IOError
  | Error string

text \<open>What a path of the file system holds.\<close>

datatype node = File string | Unreadable | Dir

text \<open>The calls the extension makes on the editor, the file system and the client.\<close>

datatype event =
    ClientStop
  | ShowInputBox string "string option"
  | ShowQuickPick "string list" "string option"
  | ShowErrorMessage string
  | MkDir string
  | CopyFile string string
  | ClientStart serverCommand

text \<open>
  The mutable state: the file system, the module-level \<^verbatim>\<open>client\<close> variable, and the
  calls made so far.
\<close>

record world =
  fs :: "string \<Rightarrow> node option"
  client :: "serverCommand option"
  trace :: "event list"

text \<open>
  What the extension reads from its host and the library functions it calls:
  \<^verbatim>\<open>workspace.workspaceFolders\<close> (the \<^verbatim>\<open>uri.fsPath\<close> of each folder, \<open>None\<close> for
  \<^verbatim>\<open>undefined\<close>), the file name of the active document, \<^verbatim>\<open>path.join\<close>,
  \<^verbatim>\<open>JSON.parse\<close> at the two types the source gives its result (\<open>Inl\<close> when it throws,
  \<open>Inr None\<close> for the JSON text \<^verbatim>\<open>null\<close>), \<^verbatim>\<open>which.sync\<close> (\<open>None\<close> when it throws),
  \<^verbatim>\<open>execSync\<close> of a command in a directory (its standard output, \<open>Inl\<close> when the
  command cannot be run or exits nonzero), whether a directory may be created at a path
  and whether a file may be written at a path, and the answers of the user to the two
  prompts (\<open>None\<close> when dismissed).
\<close>

record host =
  workspaceFolders :: "string list option"
  activeDocument :: "string option"
  path_join :: "string list \<Rightarrow> string"
  parse_DfxConfig :: "string \<Rightarrow> error + DfxConfig option"
  parse_DfxCanisterManifest :: "string \<Rightarrow> error + DfxCanisterManifest option"
  which_sync :: "string \<Rightarrow> string option"
  execSync :: "string \<Rightarrow> string \<Rightarrow> error + string"
  may_mkdir :: "string \<Rightarrow> bool"
  may_write :: "string \<Rightarrow> bool"
  answerInputBox :: "string \<Rightarrow> string option \<Rightarrow> string option"
  answerQuickPick :: "string list \<Rightarrow> string option"

section \<open>Library functions\<close>

text \<open>
  \<^verbatim>\<open>String.prototype.split\<close> with a separator of one character: every occurrence of
  the separator ends a token, so the result is never empty and \<^verbatim>\<open>"".split(" ")\<close> is
  \<^verbatim>\<open>[""]\<close>.
\<close>

fun str_split :: "char \<Rightarrow> string \<Rightarrow> string list" where
  "str_split c [] = [[]]"
| "str_split c (x # xs) =
     (if x = c then [] # str_split c xs
      else (case str_split c xs of
              [] \<Rightarrow> [[x]]
            | t # ts \<Rightarrow> (x # t) # ts))"

text \<open>\<^verbatim>\<open>String.prototype.slice(n)\<close> for \<open>n \<ge> 0\<close>: the string without its first \<open>n\<close> characters.\<close>

definition slice :: "nat \<Rightarrow> string \<Rightarrow> string" where
  "slice n s = drop n s"

text \<open>
  The names every object made by \<^verbatim>\<open>JSON.parse\<close> inherits from \<^verbatim>\<open>Object.prototype\<close>.
  Reading one of them from an object that has no own property of that name yields the
  inherited function or accessor value, not \<^verbatim>\<open>undefined\<close>.
\<close>

definition objectPrototypeKeys :: "string list" where
  "objectPrototypeKeys =
     [''constructor'', ''__defineGetter__'', ''__defineSetter__'', ''hasOwnProperty'',
      ''__lookupGetter__'', ''__lookupSetter__'', ''isPrototypeOf'',
      ''propertyIsEnumerable'', ''toString'', ''valueOf'', ''__proto__'',
      ''toLocaleString'']"

datatype 'a property = Own 'a | Inherited | Absent

text \<open>The property read \<^verbatim>\<open>obj[key]\<close> on an object made by \<^verbatim>\<open>JSON.parse\<close>.\<close>

definition getProp :: "(string \<times> 'a) list \<Rightarrow> string \<Rightarrow> 'a property" where
  "getProp obj key =
     (case map_of obj key of
        Some v \<Rightarrow> Own v
      | None \<Rightarrow> if key \<in> set objectPrototypeKeys then Inherited else Absent)"

text \<open>\<^verbatim>\<open>fs.existsSync\<close>: true for whatever the path holds.\<close>

definition existsSync :: "world \<Rightarrow> string \<Rightarrow> bool" where
  "existsSync w p = (fs w p \<noteq> None)"

text \<open>\<^verbatim>\<open>fs.readFileSync(p).toString("utf8")\<close>: throws unless the path holds a readable file.\<close>

definition readFileSync :: "world \<Rightarrow> string \<Rightarrow> error + string" where
  "readFileSync w p = (case fs w p of Some (File s) \<Rightarrow> Inr s | _ \<Rightarrow> Inl IOError)"

text \<open>
  \<^verbatim>\<open>fs.mkdirSync(p, { recursive: true })\<close>. Only the directory itself is recorded in the
  file system; the parents the call makes on the way are not.
\<close>

definition mkdirSync :: "host \<Rightarrow> string \<Rightarrow> world \<Rightarrow> (error + unit) \<times> world" where
  "mkdirSync h p w =
     (if may_mkdir h p
      then (Inr (), w\<lparr>fs := (fs w)(p \<mapsto> Dir), trace := trace w @ [MkDir p]\<rparr>)
      else (Inl IOError, w))"

text \<open>
  \<^verbatim>\<open>fs.copyFileSync(src, dst)\<close>: throws when the source is not a readable file or the
  destination cannot be written.
\<close>

definition copyFileSync :: "host \<Rightarrow> string \<Rightarrow> string \<Rightarrow> world \<Rightarrow> (error + unit) \<times> world" where
  "copyFileSync h src dst w =
     (case fs w src of
        Some (File s) \<Rightarrow>
          if may_write h dst
          then (Inr (), w\<lparr>fs := (fs w)(dst \<mapsto> File s), trace := trace w @ [CopyFile src dst]\<rparr>)
          else (Inl IOError, w)
      | _ \<Rightarrow> (Inl IOError, w))"

section \<open>The functions of both variants\<close>

text \<open>
  \<^verbatim>\<open>launchClient\<close>: makes a new \<^verbatim>\<open>LanguageClient\<close> from the server command, stores it in
  \<^verbatim>\<open>client\<close> and starts it.
\<close>

definition launchClient :: "serverCommand \<Rightarrow> world \<Rightarrow> (error + unit) \<times> world" where
  "launchClient sc w = (Inr (), w\<lparr>client := Some sc, trace := trace w @ [ClientStart sc]\<rparr>)"

text \<open>
  \<^verbatim>\<open>isDfxProject\<close>: \<^verbatim>\<open>null\<close> without workspace folders; otherwise the parsed
  \<^verbatim>\<open>dfx.json\<close> of the first folder, and \<^verbatim>\<open>null\<close> for whatever is thrown inside the
  \<^verbatim>\<open>try\<close> (\<^verbatim>\<open>wsf[0].uri\<close> of an empty array, the read, the parse).
\<close>

definition isDfxProject :: "host \<Rightarrow> world \<Rightarrow> DfxConfig option" where
  "isDfxProject h w =
     (case workspaceFolders h of
        None \<Rightarrow> None
      | Some [] \<Rightarrow> None
      | Some (f # _) \<Rightarrow>
          (case readFileSync w (path_join h [f, ''dfx.json'']) of
             Inl _ \<Rightarrow> None
           | Inr s \<Rightarrow>
               (case parse_DfxConfig h s of
                  Inl _ \<Rightarrow> None
                | Inr r \<Rightarrow> r)))"

section \<open>The extended variant\<close>

text \<open>\<^verbatim>\<open>getOrCreateIDLPath\<close>: the whole body is inside a \<^verbatim>\<open>try\<close> whose handler returns \<^verbatim>\<open>null\<close>.\<close>

definition getOrCreateIDLPath :: "host \<Rightarrow> world \<Rightarrow> string option \<times> world" where
  "getOrCreateIDLPath h w =
     (case workspaceFolders h of
        None \<Rightarrow> (None, w)
      | Some [] \<Rightarrow> (None, w)
      | Some (f # _) \<Rightarrow>
          (let idlPath = path_join h [f, ''.vscode'', ''idl''] in
           if existsSync w idlPath then (Some idlPath, w)
           else (case mkdirSync h idlPath w of
                   (Inl _, w') \<Rightarrow> (None, w')
                 | (Inr _, w') \<Rightarrow> (Some idlPath, w'))))"

text \<open>\<^verbatim>\<open>getDfxManifest\<close>: as \<open>isDfxProject\<close>, on \<^verbatim>\<open>canisters/canister_manifest.json\<close>.\<close>

definition getDfxManifest :: "host \<Rightarrow> world \<Rightarrow> DfxCanisterManifest option" where
  "getDfxManifest h w =
     (case workspaceFolders h of
        None \<Rightarrow> None
      | Some [] \<Rightarrow> None
      | Some (f # _) \<Rightarrow>
          (case readFileSync w (path_join h [f, ''canisters'', ''canister_manifest.json'']) of
             Inl _ \<Rightarrow> None
           | Inr s \<Rightarrow>
               (case parse_DfxCanisterManifest h s of
                  Inl _ \<Rightarrow> None
                | Inr r \<Rightarrow> r)))"

text \<open>
  The \<^verbatim>\<open>for\<close> loop of \<^verbatim>\<open>copyIDLFiles\<close> over the entries of the manifest: the mapping is
  pushed first, then the file is copied, outside any \<^verbatim>\<open>try\<close>. (The \<^verbatim>\<open>console.log\<close> call
  is left out.)
\<close>

fun copyEntries ::
  "host \<Rightarrow> string \<Rightarrow> (string \<times> DfxManifestCanister) list \<Rightarrow> (string \<times> string) list \<Rightarrow> world
     \<Rightarrow> (error + (string \<times> string) list) \<times> world" where
  "copyEntries h idlPath [] canisterMappings w = (Inr canisterMappings, w)"
| "copyEntries h idlPath ((alias, info) # es) canisterMappings w =
     (let canisterId = slice 3 (canister_id info);
          canisterMappings' = canisterMappings @ [(alias, canister_id info)]
      in case copyFileSync h (candid_path info) (path_join h [idlPath, canisterId @ ''.did'']) w of
           (Inl e, w') \<Rightarrow> (Inl e, w')
         | (Inr _, w') \<Rightarrow> copyEntries h idlPath es canisterMappings' w')"

text \<open>The object \<^verbatim>\<open>copyIDLFiles\<close> returns; a mapping is the pair of \<^verbatim>\<open>alias\<close> and \<^verbatim>\<open>id\<close>.\<close>

record idlFiles =
  idlPath :: string
  canisterMappings :: "(string \<times> string) list"

definition copyIDLFiles :: "host \<Rightarrow> world \<Rightarrow> (error + idlFiles option) \<times> world" where
  "copyIDLFiles h w =
     (case getOrCreateIDLPath h w of
        (None, w1) \<Rightarrow> (Inr None, w1)
      | (Some p, w1) \<Rightarrow>
          (case getDfxManifest h w1 of
             None \<Rightarrow> (Inr None, w1)
           | Some canisterManifest \<Rightarrow>
               (case copyEntries h p (manifest_canisters canisterManifest) [] w1 of
                  (Inl e, w2) \<Rightarrow> (Inl e, w2)
                | (Inr ms, w2) \<Rightarrow> (Inr (Some \<lparr>idlPath = p, canisterMappings = ms\<rparr>), w2))))"

text \<open>The \<^verbatim>\<open>idlArgs\<close> array that \<^verbatim>\<open>start\<close> builds from the result of \<^verbatim>\<open>copyIDLFiles\<close>.\<close>

definition idlArgs :: "idlFiles option \<Rightarrow> string list" where
  "idlArgs r =
     (case r of
        None \<Rightarrow> []
      | Some i \<Rightarrow>
          [''--actor-idl'', idlPath i]
          @ concat (map (\<lambda>(alias, ident). [''--actor-alias'', alias, ident]) (canisterMappings i)))"

text \<open>
  The closure \<^verbatim>\<open>start\<close> of \<^verbatim>\<open>launchDfxProject\<close>. Staging runs first. Then
  \<^verbatim>\<open>dfxConfig.canisters[canister].main\<close> is read: on a name that is neither an own nor an
  inherited property, \<^verbatim>\<open>.main\<close> is read from \<^verbatim>\<open>undefined\<close>, which throws; on an inherited
  name, \<^verbatim>\<open>.main\<close> of the inherited value is \<^verbatim>\<open>undefined\<close>.
\<close>

definition start :: "host \<Rightarrow> config \<Rightarrow> DfxConfig \<Rightarrow> string \<Rightarrow> world \<Rightarrow> (error + unit) \<times> world" where
  "start h cfg dfxConfig c w =
     (case copyIDLFiles h w of
        (Inl e, w1) \<Rightarrow> (Inl e, w1)
      | (Inr r, w1) \<Rightarrow>
          (case getProp (canisters dfxConfig) c of
             Absent \<Rightarrow> (Inl TypeError, w1)
           | Inherited \<Rightarrow>
               launchClient
                 \<lparr>command = standaloneBinary cfg,
                  args = [Str ''--canister-main'', Undefined] @ map Str (idlArgs r)\<rparr> w1
           | Own d \<Rightarrow>
               launchClient
                 \<lparr>command = standaloneBinary cfg,
                  args = [Str ''--canister-main'', Str (main d)] @ map Str (idlArgs r)\<rparr> w1))"

text \<open>
  \<^verbatim>\<open>launchDfxProject\<close>: the configured name when it is not empty, else the only target,
  else the answer to a quick pick; a dismissed pick and the empty string are both falsy.
  An exception thrown inside the \<^verbatim>\<open>then\<close> callback is reported like any other.
\<close>

definition launchDfxProject :: "host \<Rightarrow> config \<Rightarrow> DfxConfig \<Rightarrow> world \<Rightarrow> (error + unit) \<times> world" where
  "launchDfxProject h cfg dfxConfig w =
     (let names = map fst (canisters dfxConfig) in
      if canister cfg \<noteq> [] then start h cfg dfxConfig (canister cfg) w
      else if length names = 1 then start h cfg dfxConfig (names ! 0) w
      else
        (let w1 = w\<lparr>trace := trace w
                      @ [ShowQuickPick names (Some ''What canister do you want to work on?'')]\<rparr>
         in case answerQuickPick h names of
              None \<Rightarrow> (Inr (), w1)
            | Some c \<Rightarrow> if c \<noteq> [] then start h cfg dfxConfig c w1 else (Inr (), w1)))"

text \<open>
  \<^verbatim>\<open>vesselArgs\<close>: the whole body is inside a \<^verbatim>\<open>try\<close> whose handler returns the empty
  array.
\<close>

definition vesselArgs :: "host \<Rightarrow> world \<Rightarrow> string list" where
  "vesselArgs h w =
     (case workspaceFolders h of
        None \<Rightarrow> []
      | Some [] \<Rightarrow> []
      | Some (ws # _) \<Rightarrow>
          if \<not> existsSync w (path_join h [ws, ''vessel.json'']) then []
          else (case execSync h ''vessel sources'' ws of
                  Inl _ \<Rightarrow> []
                | Inr flags \<Rightarrow> str_split CHR '' '' flags))"

definition prompt :: string where
  "prompt = ''We failed to detect a dfx project for this Motoko file. What file do you want to use as an entry point?''"

text \<open>\<^verbatim>\<open>client.stop()\<close> when a client exists, at the start of \<^verbatim>\<open>startServer\<close>.\<close>

definition stopClient :: "world \<Rightarrow> world" where
  "stopClient w = (case client w of None \<Rightarrow> w | Some _ \<Rightarrow> w\<lparr>trace := trace w @ [ClientStop]\<rparr>)"

text \<open>\<^verbatim>\<open>startServer\<close>\<close>

definition startServer :: "host \<Rightarrow> config \<Rightarrow> world \<Rightarrow> (error + unit) \<times> world" where
  "startServer h cfg w =
     (let w0 = stopClient w in
      case isDfxProject h w0 of
        Some dfxConfig \<Rightarrow> launchDfxProject h cfg dfxConfig w0
      | None \<Rightarrow>
          (let w1 = w0\<lparr>trace := trace w0 @ [ShowInputBox prompt (activeDocument h)]\<rparr> in
           case answerInputBox h prompt (activeDocument h) of
             None \<Rightarrow> (Inr (), w1)
           | Some entryPoint \<Rightarrow>
               if entryPoint \<noteq> [] then
                 launchClient
                   \<lparr>command = standaloneBinary cfg,
                    args = map Str ([''--canister-main'', entryPoint]
                                     @ vesselArgs h w1
                                     @ str_split CHR '' '' (standaloneArguments cfg))\<rparr> w1
               else (Inr (), w1)))"

section \<open>The lean variant\<close>

text \<open>
  \<^verbatim>\<open>getDfx\<close>: the search-path lookup; when it throws, the configured path itself if it
  exists, else an error message and an exception.
\<close>

definition getDfx_lean :: "host \<Rightarrow> config \<Rightarrow> world \<Rightarrow> (error + string) \<times> world" where
  "getDfx_lean h cfg w =
     (case which_sync h (dfx cfg) of
        Some p \<Rightarrow> (Inr p, w)
      | None \<Rightarrow>
          if \<not> existsSync w (dfx cfg) then
            (Inl (Error ''Failed to locate dfx''),
             w\<lparr>trace := trace w
                  @ [ShowErrorMessage (''Failed to locate dfx at '' @ dfx cfg
                       @ '' check that dfx is installed or try changing motoko.dfx in settings'')]\<rparr>)
          else (Inr (dfx cfg), w))"

text \<open>The closure \<^verbatim>\<open>start\<close> of the lean \<^verbatim>\<open>launchDfxProject\<close>.\<close>

definition start_lean :: "host \<Rightarrow> config \<Rightarrow> string \<Rightarrow> world \<Rightarrow> (error + unit) \<times> world" where
  "start_lean h cfg c w =
     (case getDfx_lean h cfg w of
        (Inl e, w1) \<Rightarrow> (Inl e, w1)
      | (Inr p, w1) \<Rightarrow>
          launchClient \<lparr>command = p, args = [Str ''_language-service'', Str c]\<rparr> w1)"

definition launchDfxProject_lean ::
  "host \<Rightarrow> config \<Rightarrow> DfxConfig \<Rightarrow> world \<Rightarrow> (error + unit) \<times> world" where
  "launchDfxProject_lean h cfg dfxConfig w =
     (let names = map fst (canisters dfxConfig) in
      if canister cfg \<noteq> [] then start_lean h cfg (canister cfg) w
      else if length names = 1 then start_lean h cfg (names ! 0) w
      else
        (let w1 = w\<lparr>trace := trace w @ [ShowQuickPick names None]\<rparr>
         in case answerQuickPick h names of
              None \<Rightarrow> (Inr (), w1)
            | Some c \<Rightarrow> if c \<noteq> [] then start_lean h cfg c w1 else (Inr (), w1)))"

text \<open>\<^verbatim>\<open>activate\<close> of the lean variant.\<close>

definition activate_lean :: "host \<Rightarrow> config \<Rightarrow> world \<Rightarrow> (error + unit) \<times> world" where
  "activate_lean h cfg w =
     (case isDfxProject h w of
        Some dfxConfig \<Rightarrow> launchDfxProject_lean h cfg dfxConfig w
      | None \<Rightarrow>
          (let w1 = w\<lparr>trace := trace w @ [ShowInputBox prompt (activeDocument h)]\<rparr> in
           case answerInputBox h prompt (activeDocument h) of
             None \<Rightarrow> (Inr (), w1)
           | Some entryPoint \<Rightarrow>
               if entryPoint \<noteq> [] then
                 launchClient
                   \<lparr>command = standaloneBinary cfg,
                    args = map Str ([''--canister-main'', entryPoint]
                                     @ str_split CHR '' '' (standaloneArguments cfg))\<rparr> w1
               else (Inr (), w1)))"

section \<open>Observations on a trace\<close>

text \<open>The server commands handed to the language client, in order.\<close>

fun started :: "event list \<Rightarrow> serverCommand list" where
  "started [] = []"
| "started (ClientStart sc # es) = sc # started es"
| "started (_ # es) = started es"

text \<open>The item lists of the quick picks shown, in order.\<close>

fun quickPicks :: "event list \<Rightarrow> string list list" where
  "quickPicks [] = []"
| "quickPicks (ShowQuickPick items ph # es) = items # quickPicks es"
| "quickPicks (_ # es) = quickPicks es"

text \<open>The error notifications shown, in order.\<close>

fun errorMessages :: "event list \<Rightarrow> string list" where
  "errorMessages [] = []"
| "errorMessages (ShowErrorMessage m # es) = m # errorMessages es"
| "errorMessages (_ # es) = errorMessages es"

text \<open>Two worlds that differ at most in the file system and in file-system calls.\<close>

definition same_ui :: "world \<Rightarrow> world \<Rightarrow> bool" where
  "same_ui w w' \<longleftrightarrow>
     started (trace w') = started (trace w) \<and> quickPicks (trace w') = quickPicks (trace w) \<and>
     errorMessages (trace w') = errorMessages (trace w) \<and> client w' = client w"

text \<open>The \<^verbatim>\<open>CopyFile\<close> call of the loop of \<^verbatim>\<open>copyIDLFiles\<close> for one entry of the manifest.\<close>

definition stagedCopy :: "host \<Rightarrow> string \<Rightarrow> string \<times> DfxManifestCanister \<Rightarrow> event" where
  "stagedCopy h p e =
     CopyFile (candid_path (snd e)) (path_join h [p, slice 3 (canister_id (snd e)) @ ''.did''])"

section \<open>Example inputs\<close>

text \<open>A \<^verbatim>\<open>path.join\<close> for the examples: the segments with a slash between them.\<close>

fun slash_join :: "string list \<Rightarrow> string" where
  "slash_join [] = ''.''"
| "slash_join [p] = p"
| "slash_join (p # q # ps) = p @ ''/'' @ slash_join (q # ps)"

definition quoted :: "string \<Rightarrow> string" where
  "quoted s = CHR 0x22 # s @ [CHR 0x22]"

text \<open>The manifest \<^verbatim>\<open>{"canisters":{"main":{"main":"src/main.mo"}}}\<close> and its parse.\<close>

definition dfx_json :: string where
  "dfx_json = ''{'' @ quoted ''canisters'' @ '':{'' @ quoted ''main'' @ '':{''
                @ quoted ''main'' @ '':'' @ quoted ''src/main.mo'' @ ''}}}''"

definition dfxConfig0 :: DfxConfig where
  "dfxConfig0 = \<lparr>canisters = [(''main'', \<lparr>main = ''src/main.mo''\<rparr>)]\<rparr>"

text \<open>A manifest with two targets.\<close>

definition dfxConfig2 :: DfxConfig where
  "dfxConfig2 =
     \<lparr>canisters = [(''alpha'', \<lparr>main = ''src/alpha.mo''\<rparr>), (''beta'', \<lparr>main = ''src/beta.mo''\<rparr>)]\<rparr>"

text \<open>An interface manifest with one entry, and its parse.\<close>

definition manifest_json :: string where
  "manifest_json = ''{'' @ quoted ''canisters'' @ '':{'' @ quoted ''main'' @ '':{''
                @ quoted ''candid_path'' @ '':'' @ quoted ''/ws/canisters/main/main.did'' @ '',''
                @ quoted ''canister_id'' @ '':'' @ quoted ''ic:ABCD'' @ ''}}}''"

definition manifest0 :: DfxCanisterManifest where
  "manifest0 = \<lparr>manifest_canisters =
      [(''main'', \<lparr>candid_path = ''/ws/canisters/main/main.did'', canister_id = ''ic:ABCD''\<rparr>)]\<rparr>"

text \<open>The same interface manifest with the empty string as the identifier, and its parse.\<close>

definition manifest_empty_id_json :: string where
  "manifest_empty_id_json = ''{'' @ quoted ''canisters'' @ '':{'' @ quoted ''main'' @ '':{''
                @ quoted ''candid_path'' @ '':'' @ quoted ''/ws/canisters/main/main.did'' @ '',''
                @ quoted ''canister_id'' @ '':'' @ quoted [] @ ''}}}''"

definition manifest_empty_id :: DfxCanisterManifest where
  "manifest_empty_id = \<lparr>manifest_canisters =
      [(''main'', \<lparr>candid_path = ''/ws/canisters/main/main.did'', canister_id = []\<rparr>)]\<rparr>"

text \<open>
  A host with the workspace \<^verbatim>\<open>/ws\<close>: \<^verbatim>\<open>dfx\<close> is on the search path, \<^verbatim>\<open>vessel\<close> is not
  installed, the user accepts the proposed entry point and dismisses a quick pick.
\<close>

definition host0 :: host where
  "host0 =
     \<lparr>workspaceFolders = Some [''/ws''],
      activeDocument = Some ''/tmp/foo.mo'',
      path_join = slash_join,
      parse_DfxConfig = (\<lambda>s. if s = dfx_json then Inr (Some dfxConfig0) else Inl SyntaxError),
      parse_DfxCanisterManifest =
        (\<lambda>s. if s = manifest_json then Inr (Some manifest0)
             else if s = manifest_empty_id_json then Inr (Some manifest_empty_id)
             else Inl SyntaxError),
      which_sync = (\<lambda>n. if n = ''dfx'' then Some ''/usr/local/bin/dfx'' else None),
      execSync = (\<lambda>c d. Inl (Error ''Command failed: vessel sources'')),
      may_mkdir = (\<lambda>p. True),
      may_write = (\<lambda>p. True),
      answerInputBox = (\<lambda>p v. v),
      answerQuickPick = (\<lambda>items. None)\<rparr>"

text \<open>The same host with nothing on the search path.\<close>

definition host_no_dfx :: host where
  "host_no_dfx = host0\<lparr>which_sync := (\<lambda>n. None)\<rparr>"

definition config0 :: config where
  "config0 = \<lparr>standaloneBinary = ''mo-ide'', standaloneArguments = ''--a --b'',
              canister = [], dfx = ''dfx''\<rparr>"

text \<open>Worlds with no client running and nothing called yet, by the files of the workspace.\<close>

definition world_of :: "(string \<Rightarrow> node option) \<Rightarrow> world" where
  "world_of files = \<lparr>fs = files, client = None, trace = []\<rparr>"

definition world_empty :: world where
  "world_empty = world_of Map.empty"

definition world_malformed :: world where
  "world_malformed = world_of [''/ws/dfx.json'' \<mapsto> File ''{'']"

definition world_vessel :: world where
  "world_vessel = world_of [''/ws/vessel.json'' \<mapsto> File ''{}'']"

definition world0 :: world where
  "world0 = world_of [''/ws/dfx.json'' \<mapsto> File dfx_json]"

text \<open>The interface manifest is there, the artifact it names is not.\<close>

definition world1 :: world where
  "world1 = world_of [''/ws/dfx.json'' \<mapsto> File dfx_json,
                      ''/ws/canisters/canister_manifest.json'' \<mapsto> File manifest_json]"

text \<open>The interface manifest and the artifact are both there.\<close>

definition world2 :: world where
  "world2 = world_of [''/ws/dfx.json'' \<mapsto> File dfx_json,
                      ''/ws/canisters/canister_manifest.json'' \<mapsto> File manifest_json,
                      ''/ws/canisters/main/main.did'' \<mapsto> File ''service : {}'']"

text \<open>The interface manifest with the empty identifier and the artifact are both there.\<close>

definition world_empty_id :: world where
  "world_empty_id =
     world_of [''/ws/dfx.json'' \<mapsto> File dfx_json,
               ''/ws/canisters/canister_manifest.json'' \<mapsto> File manifest_empty_id_json,
               ''/ws/canisters/main/main.did'' \<mapsto> File ''service : {}'']"

text \<open>The configured \<^verbatim>\<open>dfx\<close> is a path that exists.\<close>

definition world_dfx_here :: world where
  "world_dfx_here = world_of [''/ws/dfx.json'' \<mapsto> File dfx_json, ''dfx'' \<mapsto> File []]"

text \<open>The configured \<^verbatim>\<open>dfx\<close> is a path that holds a directory.\<close>

definition world_dfx_dir :: world where
  "world_dfx_dir = world_of [''/ws/dfx.json'' \<mapsto> File dfx_json, ''dfx'' \<mapsto> Dir]"

lemmas example_defs =
  host0_def host_no_dfx_def config0_def world_of_def world_empty_def
  world_malformed_def world_vessel_def world0_def world1_def world2_def world_empty_id_def world_dfx_here_def
  world_dfx_dir_def
  dfx_json_def manifest_json_def quoted_def dfxConfig0_def dfxConfig2_def manifest0_def
  manifest_empty_id_def manifest_empty_id_json_def

lemmas model_defs =
  startServer_def stopClient_def isDfxProject_def readFileSync_def launchDfxProject_def
  start_def copyIDLFiles_def getOrCreateIDLPath_def existsSync_def mkdirSync_def
  getDfxManifest_def copyFileSync_def getProp_def launchClient_def idlArgs_def slice_def
  vesselArgs_def prompt_def objectPrototypeKeys_def activate_lean_def launchDfxProject_lean_def
  start_lean_def getDfx_lean_def Let_def

section \<open>Auxiliary lemmas\<close>

subsection \<open>Splitting\<close>


subsection \<open>Staging leaves the editor and the client alone\<close>

lemma started_append [simp]: "started (xs @ ys) = started xs @ started ys"
  by (induction xs rule: started.induct) simp_all

lemma quickPicks_append [simp]: "quickPicks (xs @ ys) = quickPicks xs @ quickPicks ys"
  by (induction xs rule: quickPicks.induct) simp_all

lemma errorMessages_append [simp]: "errorMessages (xs @ ys) = errorMessages xs @ errorMessages ys"
  by (induction xs rule: errorMessages.induct) simp_all

lemma same_ui_refl: "same_ui w w"
  by (simp add: same_ui_def)

lemma same_ui_trans: "same_ui w w1 \<Longrightarrow> same_ui w1 w2 \<Longrightarrow> same_ui w w2"
  by (simp add: same_ui_def)

lemma mkdirSync_same_ui: "mkdirSync h p w = (r, w') \<Longrightarrow> same_ui w w'"
  by (auto simp: mkdirSync_def same_ui_def split: if_splits)

lemma copyFileSync_same_ui: "copyFileSync h src dst w = (r, w') \<Longrightarrow> same_ui w w'"
  by (auto simp: copyFileSync_def same_ui_def split: option.splits node.splits if_splits)

lemma getOrCreateIDLPath_same_ui: "getOrCreateIDLPath h w = (r, w') \<Longrightarrow> same_ui w w'"
  by (auto simp: getOrCreateIDLPath_def Let_def same_ui_refl
           split: option.splits list.splits prod.splits sum.splits if_splits
           dest: mkdirSync_same_ui)

lemma copyEntries_same_ui: "copyEntries h p es acc w = (r, w') \<Longrightarrow> same_ui w w'"
proof (induction es arbitrary: acc w)
  case Nil
  then show ?case by (simp add: same_ui_refl)
next
  case (Cons e es)
  obtain a info where e: "e = (a, info)" by (cases e)
  obtain x w1 where c:
    "copyFileSync h (candid_path info) (path_join h [p, slice 3 (canister_id info) @ ''.did'']) w = (x, w1)"
    by (cases "copyFileSync h (candid_path info) (path_join h [p, slice 3 (canister_id info) @ ''.did'']) w")
  have w1: "same_ui w w1" using c by (rule copyFileSync_same_ui)
  show ?case
  proof (cases x)
    case (Inl err)
    then show ?thesis using Cons.prems c e w1 by (simp add: Let_def)
  next
    case (Inr u)
    then have "copyEntries h p es (acc @ [(a, canister_id info)]) w1 = (r, w')"
      using Cons.prems c e by (simp add: Let_def)
    then have "same_ui w1 w'" by (rule Cons.IH)
    with w1 show ?thesis by (rule same_ui_trans)
  qed
qed

lemma copyIDLFiles_same_ui: "copyIDLFiles h w = (r, w') \<Longrightarrow> same_ui w w'"
  by (auto simp: copyIDLFiles_def split: prod.splits option.splits sum.splits
           dest!: getOrCreateIDLPath_same_ui copyEntries_same_ui intro: same_ui_trans)

text \<open>What \<open>start\<close> adds to the commands started, in terms of the outcome of staging.\<close>

lemma start_started:
  "started (trace (snd (start h cfg d c w))) =
     started (trace w) @
       (case fst (copyIDLFiles h w) of
          Inl e \<Rightarrow> []
        | Inr r \<Rightarrow>
            (case getProp (canisters d) c of
               Absent \<Rightarrow> []
             | Inherited \<Rightarrow>
                 [\<lparr>command = standaloneBinary cfg,
                   args = [Str ''--canister-main'', Undefined] @ map Str (idlArgs r)\<rparr>]
             | Own t \<Rightarrow>
                 [\<lparr>command = standaloneBinary cfg,
                   args = [Str ''--canister-main'', Str (main t)] @ map Str (idlArgs r)\<rparr>]))"
  by (auto simp: start_def launchClient_def same_ui_def split: prod.splits sum.splits property.splits
           dest!: copyIDLFiles_same_ui)

lemma start_quickPicks: "quickPicks (trace (snd (start h cfg d c w))) = quickPicks (trace w)"
  by (auto simp: start_def launchClient_def same_ui_def split: prod.splits sum.splits property.splits
           dest!: copyIDLFiles_same_ui)

lemma start_errorMessages: "errorMessages (trace (snd (start h cfg d c w))) = errorMessages (trace w)"
  by (auto simp: start_def launchClient_def same_ui_def split: prod.splits sum.splits property.splits
           dest!: copyIDLFiles_same_ui)

lemma start_outcome:
  "fst (start h cfg d c w) =
     (case fst (copyIDLFiles h w) of
        Inl e \<Rightarrow> Inl e
      | Inr r \<Rightarrow> (case getProp (canisters d) c of Absent \<Rightarrow> Inl TypeError | _ \<Rightarrow> Inr ()))"
  by (auto simp: start_def launchClient_def split: prod.splits sum.splits property.splits)

lemma start_lean_started:
  "started (trace (snd (start_lean h cfg c w))) =
     started (trace w) @
       (case fst (getDfx_lean h cfg w) of
          Inl e \<Rightarrow> []
        | Inr p \<Rightarrow> [\<lparr>command = p, args = [Str ''_language-service'', Str c]\<rparr>])"
  by (auto simp: start_lean_def getDfx_lean_def launchClient_def split: prod.splits sum.splits option.splits)

lemma start_lean_quickPicks: "quickPicks (trace (snd (start_lean h cfg c w))) = quickPicks (trace w)"
  by (auto simp: start_lean_def getDfx_lean_def launchClient_def split: prod.splits sum.splits option.splits)

subsection \<open>The manifest-absent path\<close>

lemma fs_stopClient [simp]: "fs (stopClient w) = fs w"
  by (simp add: stopClient_def split: option.splits)

lemma isDfxProject_fs:
  assumes "fs w' = fs w"
  shows "isDfxProject h w' = isDfxProject h w"
proof -
  have "readFileSync w' = readFileSync w"
    using assms by (simp add: fun_eq_iff readFileSync_def)
  then show ?thesis by (simp add: isDfxProject_def split: option.splits list.splits)
qed

lemma vesselArgs_fs:
  assumes "fs w' = fs w"
  shows "vesselArgs h w' = vesselArgs h w"
proof -
  have "existsSync w' = existsSync w"
    using assms by (simp add: fun_eq_iff existsSync_def)
  then show ?thesis by (simp add: vesselArgs_def split: option.splits list.splits)
qed

lemma started_stopClient [simp]: "started (trace (stopClient w)) = started (trace w)"
  by (simp add: stopClient_def split: option.splits)

lemma quickPicks_stopClient [simp]: "quickPicks (trace (stopClient w)) = quickPicks (trace w)"
  by (simp add: stopClient_def split: option.splits)

text \<open>The manifest-absent path of \<open>startServer\<close>, whatever package-source discovery does.\<close>

lemma startServer_standalone:
  assumes "isDfxProject h w = None"
  shows "fst (startServer h cfg w) = Inr ()"
    and "quickPicks (trace (snd (startServer h cfg w))) = quickPicks (trace w)"
    and "started (trace (snd (startServer h cfg w))) =
           started (trace w) @
             (case answerInputBox h prompt (activeDocument h) of
                None \<Rightarrow> []
              | Some entryPoint \<Rightarrow>
                  if entryPoint = [] then []
                  else [\<lparr>command = standaloneBinary cfg,
                         args = map Str ([''--canister-main'', entryPoint] @ vesselArgs h w
                                          @ str_split CHR '' '' (standaloneArguments cfg))\<rparr>])"
proof -
  have d: "isDfxProject h (stopClient w) = None"
    using assms isDfxProject_fs [of "stopClient w" w h] by simp
  have v: "\<And>t. vesselArgs h (stopClient w\<lparr>trace := t\<rparr>) = vesselArgs h w"
    by (rule vesselArgs_fs) simp
  show "fst (startServer h cfg w) = Inr ()"
    using d by (simp add: startServer_def Let_def launchClient_def split: option.splits)
  show "quickPicks (trace (snd (startServer h cfg w))) = quickPicks (trace w)"
    using d by (simp add: startServer_def Let_def launchClient_def split: option.splits)
  show "started (trace (snd (startServer h cfg w))) =
           started (trace w) @
             (case answerInputBox h prompt (activeDocument h) of
                None \<Rightarrow> []
              | Some entryPoint \<Rightarrow>
                  if entryPoint = [] then []
                  else [\<lparr>command = standaloneBinary cfg,
                         args = map Str ([''--canister-main'', entryPoint] @ vesselArgs h w
                                          @ str_split CHR '' '' (standaloneArguments cfg))\<rparr>])"
    using d v by (simp add: startServer_def Let_def launchClient_def split: option.splits)
qed

lemma isDfxProject_negative:
  assumes "workspaceFolders h = Some (f # rest)"
    and "fs w (path_join h [f, ''dfx.json'']) = None
         \<or> fs w (path_join h [f, ''dfx.json'']) = Some Unreadable
         \<or> (\<exists>s e. fs w (path_join h [f, ''dfx.json'']) = Some (File s) \<and> parse_DfxConfig h s = Inl e)"
  shows "isDfxProject h w = None"
  using assms by (auto simp: isDfxProject_def readFileSync_def)

lemma startServer_input_box:
  assumes "isDfxProject h w = None"
  shows "\<exists>es. trace (snd (startServer h cfg w)) =
           trace (stopClient w) @ ShowInputBox prompt (activeDocument h) # es"
proof -
  have d: "isDfxProject h (stopClient w) = None"
    using assms isDfxProject_fs [of "stopClient w" w h] by simp
  show ?thesis
    using d by (simp add: startServer_def Let_def launchClient_def split: option.splits)
qed

lemma activate_lean_standalone:
  assumes "isDfxProject h w = None"
  shows "fst (activate_lean h cfg w) = Inr ()"
    and "quickPicks (trace (snd (activate_lean h cfg w))) = quickPicks (trace w)"
    and "\<exists>es. trace (snd (activate_lean h cfg w)) = trace w @ ShowInputBox prompt (activeDocument h) # es"
    and "started (trace (snd (activate_lean h cfg w))) =
           started (trace w) @
             (case answerInputBox h prompt (activeDocument h) of
                None \<Rightarrow> []
              | Some entryPoint \<Rightarrow>
                  if entryPoint = [] then []
                  else [\<lparr>command = standaloneBinary cfg,
                         args = map Str ([''--canister-main'', entryPoint]
                                          @ str_split CHR '' '' (standaloneArguments cfg))\<rparr>])"
  using assms by (simp_all add: activate_lean_def Let_def launchClient_def split: option.splits)

subsection \<open>What staging copies\<close>

lemma copyFileSync_trace:
  "copyFileSync h src dst w = (Inr u, w') \<Longrightarrow> trace w' = trace w @ [CopyFile src dst]"
  by (auto simp: copyFileSync_def split: option.splits node.splits if_splits)

lemma copyEntries_success:
  "copyEntries h p es acc w = (Inr ms, w') \<Longrightarrow>
     trace w' = trace w @ map (stagedCopy h p) es \<and>
     ms = acc @ map (\<lambda>e. (fst e, canister_id (snd e))) es"
proof (induction es arbitrary: acc w)
  case Nil
  then show ?case by simp
next
  case (Cons e es)
  obtain a info where e: "e = (a, info)" by (cases e)
  obtain x w1 where c:
    "copyFileSync h (candid_path info) (path_join h [p, slice 3 (canister_id info) @ ''.did'']) w = (x, w1)"
    by (cases "copyFileSync h (candid_path info) (path_join h [p, slice 3 (canister_id info) @ ''.did'']) w")
  show ?case
  proof (cases x)
    case (Inl err)
    then show ?thesis using Cons.prems c e by (simp add: Let_def)
  next
    case (Inr u)
    then have r: "copyEntries h p es (acc @ [(a, canister_id info)]) w1 = (Inr ms, w')"
      using Cons.prems c e by (simp add: Let_def)
    have t: "trace w1 = trace w @ [stagedCopy h p e]"
      using c Inr e copyFileSync_trace [of h _ _ w u w1] by (simp add: stagedCopy_def)
    show ?thesis
      using Cons.IH [OF r] t e by simp
  qed
qed

lemma copyFileSync_failure:
  "copyFileSync h src dst w = (Inl e, w') \<Longrightarrow> w' = w"
  by (auto simp: copyFileSync_def split: option.splits node.splits if_splits)

text \<open>Whether or not a copy fails, the copies made are those of the first entries.\<close>

lemma copyEntries_trace:
  "copyEntries h p es acc w = (x, w') \<Longrightarrow>
     \<exists>n. trace w' = trace w @ map (stagedCopy h p) (take n es)"
proof (induction es arbitrary: acc w)
  case Nil
  then show ?case by simp
next
  case (Cons e es)
  obtain a info where e: "e = (a, info)" by (cases e)
  obtain y w1 where c:
    "copyFileSync h (candid_path info) (path_join h [p, slice 3 (canister_id info) @ ''.did'']) w = (y, w1)"
    by (cases "copyFileSync h (candid_path info) (path_join h [p, slice 3 (canister_id info) @ ''.did'']) w")
  show ?case
  proof (cases y)
    case (Inl err)
    then have "w' = w"
      using Cons.prems c e copyFileSync_failure [of h _ _ w err w1] by (simp add: Let_def)
    then have "trace w' = trace w @ map (stagedCopy h p) (take 0 (e # es))"
      by simp
    then show ?thesis by blast
  next
    case (Inr u)
    then have r: "copyEntries h p es (acc @ [(a, canister_id info)]) w1 = (x, w')"
      using Cons.prems c e by (simp add: Let_def)
    have t: "trace w1 = trace w @ [stagedCopy h p e]"
      using c Inr e copyFileSync_trace [of h _ _ w u w1] by (simp add: stagedCopy_def)
    obtain n where "trace w' = trace w1 @ map (stagedCopy h p) (take n es)"
      using Cons.IH [OF r] by blast
    then have "trace w' = trace w @ map (stagedCopy h p) (take (Suc n) (e # es))"
      using t by simp
    then show ?thesis by blast
  qed
qed

lemma slice_shorter:
  assumes "s \<noteq> []"
  shows "slice 3 s \<noteq> s"
proof -
  have "length (slice 3 s) = length s - 3"
    by (simp add: slice_def)
  moreover have "0 < length s"
    using assms by simp
  ultimately have "length (slice 3 s) \<noteq> length s"
    by arith
  then show ?thesis
    by auto
qed

text \<open>
  Two of the failures of staging are caught: when the scratch directory cannot be made and
  when the interface manifest is missing or does not parse, \<open>copyIDLFiles\<close> returns
  \<^verbatim>\<open>null\<close> and \<open>start\<close> goes on with no staging arguments.
\<close>

lemma copyIDLFiles_degrades:
  assumes "fst (getOrCreateIDLPath h w) = None
           \<or> getDfxManifest h (snd (getOrCreateIDLPath h w)) = None"
  shows "fst (copyIDLFiles h w) = Inr None"
  using assms by (auto simp: copyIDLFiles_def split: prod.splits option.splits)

section \<open>Package-source discovery\<close>

text \<open>
  Claim C2. In the manifest-absent path, when the entry point is given and package-source
  discovery fails (there is no \<^verbatim>\<open>vessel.json\<close>, or the listing command cannot be run
  or exits nonzero, so that \<^verbatim>\<open>execSync\<close> throws), \<open>vesselArgs\<close> is the empty list,
  \<open>startServer\<close> returns without an exception, and it starts exactly one command, whose
  arguments are the mode flag, the entry point and the split extra arguments.
\<close>

theorem vesselArgs_failure_degrades:
  assumes "isDfxProject h w = None"
    and "answerInputBox h prompt (activeDocument h) = Some entryPoint"
    and "entryPoint \<noteq> []"
    and "\<forall>ws rest. workspaceFolders h = Some (ws # rest) \<longrightarrow>
           \<not> existsSync w (path_join h [ws, ''vessel.json''])
           \<or> (\<exists>e. execSync h ''vessel sources'' ws = Inl e)"
  shows "vesselArgs h w = [] \<and>
         fst (startServer h cfg w) = Inr () \<and>
         started (trace (snd (startServer h cfg w))) =
           started (trace w) @
             [\<lparr>command = standaloneBinary cfg,
               args = map Str ([''--canister-main'', entryPoint]
                                @ str_split CHR '' '' (standaloneArguments cfg))\<rparr>]"
proof -
  have v: "vesselArgs h w = []"
    using assms(4) by (auto simp: vesselArgs_def split: option.splits list.splits sum.splits)
  show ?thesis
    using v assms(2,3) startServer_standalone [OF assms(1), of cfg] by simp
qed

theorem vesselArgs_failure_degrades_witness:
  "isDfxProject host0 world_vessel = None \<and>
   answerInputBox host0 prompt (activeDocument host0) = Some ''/tmp/foo.mo'' \<and>
   existsSync world_vessel (path_join host0 [''/ws'', ''vessel.json'']) \<and>
   execSync host0 ''vessel sources'' ''/ws'' = Inl (Error ''Command failed: vessel sources'') \<and>
   vesselArgs host0 world_vessel = [] \<and>
   fst (startServer host0 config0 world_vessel) = Inr () \<and>
   started (trace (snd (startServer host0 config0 world_vessel))) =
     [\<lparr>command = ''mo-ide'',
       args = [Str ''--canister-main'', Str ''/tmp/foo.mo'', Str ''--a'', Str ''--b'']\<rparr>]"
proof -
  have 1: "isDfxProject host0 world_vessel = None"
    by (simp add: example_defs isDfxProject_def readFileSync_def)
  have 2: "answerInputBox host0 prompt (activeDocument host0) = Some ''/tmp/foo.mo''"
    by (simp add: host0_def)
  have 3: "''/tmp/foo.mo'' \<noteq> []"
    by simp
  have 4: "\<forall>ws rest. workspaceFolders host0 = Some (ws # rest) \<longrightarrow>
           \<not> existsSync world_vessel (path_join host0 [ws, ''vessel.json''])
           \<or> (\<exists>e. execSync host0 ''vessel sources'' ws = Inl e)"
    by (simp add: host0_def)
  have 5: "existsSync world_vessel (path_join host0 [''/ws'', ''vessel.json''])"
    by (simp add: example_defs existsSync_def)
  have 6: "execSync host0 ''vessel sources'' ''/ws'' = Inl (Error ''Command failed: vessel sources'')"
    by (simp add: host0_def)
  have 7: "standaloneBinary config0 = ''mo-ide''"
    "str_split CHR '' '' (standaloneArguments config0) = [''--a'', ''--b'']"
    "trace world_vessel = []"
    by (simp_all add: example_defs)
  show ?thesis
    using vesselArgs_failure_degrades [OF 1 2 3 4, of config0] 1 2 5 6 7 by simp
qed

section \<open>The project detector\<close>

text \<open>
  Claim C3. For a workspace root, \<open>isDfxProject\<close> returns the one negative result
  \<open>None\<close> when \<^verbatim>\<open>dfx.json\<close> is missing, when it cannot be read, and when its text does
  not parse. In each case \<open>startServer\<close> and the lean \<open>activate\<close> return without an
  exception and go on to the input box of the standalone path, with no quick pick.
\<close>

theorem isDfxProject_collapses_failures:
  assumes "workspaceFolders h = Some (f # rest)"
    and "fs w (path_join h [f, ''dfx.json'']) = None
         \<or> fs w (path_join h [f, ''dfx.json'']) = Some Unreadable
         \<or> (\<exists>s e. fs w (path_join h [f, ''dfx.json'']) = Some (File s) \<and> parse_DfxConfig h s = Inl e)"
  shows "isDfxProject h w = None \<and>
         fst (startServer h cfg w) = Inr () \<and>
         (\<exists>es. trace (snd (startServer h cfg w)) =
                 trace (stopClient w) @ ShowInputBox prompt (activeDocument h) # es) \<and>
         quickPicks (trace (snd (startServer h cfg w))) = quickPicks (trace w) \<and>
         fst (activate_lean h cfg w) = Inr () \<and>
         (\<exists>es. trace (snd (activate_lean h cfg w)) =
                 trace w @ ShowInputBox prompt (activeDocument h) # es) \<and>
         quickPicks (trace (snd (activate_lean h cfg w))) = quickPicks (trace w)"
proof -
  have n: "isDfxProject h w = None"
    using assms by (rule isDfxProject_negative)
  show ?thesis
    using n startServer_standalone(1,2) [OF n, of cfg] startServer_input_box [OF n, of cfg]
      activate_lean_standalone(1,2,3) [OF n, of cfg]
    by simp
qed

theorem isDfxProject_collapses_failures_witness:
  "workspaceFolders host0 = Some [''/ws''] \<and>
   fs world_malformed (path_join host0 [''/ws'', ''dfx.json'']) = Some (File ''{'') \<and>
   parse_DfxConfig host0 ''{'' = Inl SyntaxError \<and>
   isDfxProject host0 world_malformed = None \<and>
   fst (startServer host0 config0 world_malformed) = Inr () \<and>
   fst (activate_lean host0 config0 world_malformed) = Inr ()"
proof -
  have 1: "workspaceFolders host0 = Some (''/ws'' # [])"
    by (simp add: host0_def)
  have 2: "fs world_malformed (path_join host0 [''/ws'', ''dfx.json'']) = Some (File ''{'')"
    by (simp add: example_defs)
  have 3: "parse_DfxConfig host0 ''{'' = Inl SyntaxError"
    by (simp add: example_defs)
  have 4: "fs world_malformed (path_join host0 [''/ws'', ''dfx.json'']) = None
         \<or> fs world_malformed (path_join host0 [''/ws'', ''dfx.json'']) = Some Unreadable
         \<or> (\<exists>s e. fs world_malformed (path_join host0 [''/ws'', ''dfx.json'']) = Some (File s)
                 \<and> parse_DfxConfig host0 s = Inl e)"
    using 2 3 by blast
  show ?thesis
    using isDfxProject_collapses_failures [OF 1 4, of config0] 1 2 3 by simp
qed

section \<open>Target selection\<close>

text \<open>
  Claim C4. With an empty configured target name and more than one target in the manifest,
  \<open>launchDfxProject\<close> (in both variants) shows exactly one quick pick, over the names
  of the targets. When the pick is dismissed it returns without an exception, having done
  nothing else: no file is staged and no server command is started.
\<close>

theorem launchDfxProject_prompts_once:
  assumes "canister cfg = []"
    and "1 < length (canisters dfxConfig)"
  shows "quickPicks (trace (snd (launchDfxProject h cfg dfxConfig w))) =
           quickPicks (trace w) @ [map fst (canisters dfxConfig)] \<and>
         quickPicks (trace (snd (launchDfxProject_lean h cfg dfxConfig w))) =
           quickPicks (trace w) @ [map fst (canisters dfxConfig)] \<and>
         (answerQuickPick h (map fst (canisters dfxConfig)) = None \<longrightarrow>
            launchDfxProject h cfg dfxConfig w =
              (Inr (), w\<lparr>trace := trace w @ [ShowQuickPick (map fst (canisters dfxConfig))
                                                (Some ''What canister do you want to work on?'')]\<rparr>) \<and>
            started (trace (snd (launchDfxProject h cfg dfxConfig w))) = started (trace w) \<and>
            launchDfxProject_lean h cfg dfxConfig w =
              (Inr (), w\<lparr>trace := trace w @ [ShowQuickPick (map fst (canisters dfxConfig)) None]\<rparr>) \<and>
            started (trace (snd (launchDfxProject_lean h cfg dfxConfig w))) = started (trace w))"
  using assms
  by (simp add: launchDfxProject_def launchDfxProject_lean_def Let_def start_quickPicks
        start_lean_quickPicks split: option.splits)

theorem launchDfxProject_prompts_once_witness:
  "canister config0 = [] \<and> length (canisters dfxConfig2) = 2 \<and>
   answerQuickPick host0 (map fst (canisters dfxConfig2)) = None \<and>
   quickPicks (trace (snd (launchDfxProject host0 config0 dfxConfig2 world0))) = [[''alpha'', ''beta'']] \<and>
   quickPicks (trace (snd (launchDfxProject_lean host0 config0 dfxConfig2 world0))) = [[''alpha'', ''beta'']] \<and>
   started (trace (snd (launchDfxProject host0 config0 dfxConfig2 world0))) = [] \<and>
   started (trace (snd (launchDfxProject_lean host0 config0 dfxConfig2 world0))) = []"
proof -
  have 1: "canister config0 = []"
    by (simp add: config0_def)
  have 2: "1 < length (canisters dfxConfig2)"
    by (simp add: dfxConfig2_def)
  have 3: "answerQuickPick host0 (map fst (canisters dfxConfig2)) = None"
    by (simp add: host0_def)
  have 4: "map fst (canisters dfxConfig2) = [''alpha'', ''beta'']" "trace world0 = []"
    by (simp_all add: dfxConfig2_def world0_def world_of_def)
  show ?thesis
    using launchDfxProject_prompts_once [OF 1 2, of host0 world0] 1 3 4
    by (simp add: dfxConfig2_def)
qed

text \<open>
  Claim C5, as stated, fails: with one target and an empty configured name no server
  command is started when the lean variant cannot locate \<^verbatim>\<open>dfx\<close>.
\<close>

theorem single_target_no_launch_counterexample:
  "canister config0 = [] \<and> length (canisters dfxConfig0) = 1 \<and>
   fst (launchDfxProject_lean host_no_dfx config0 dfxConfig0 world0) = Inl (Error ''Failed to locate dfx'') \<and>
   started (trace (snd (launchDfxProject_lean host_no_dfx config0 dfxConfig0 world0))) = []"
  by (simp add: example_defs model_defs)

text \<open>
  Claim C5, amended. With an empty configured target name and exactly one target in the
  manifest, \<open>launchDfxProject\<close> (in both variants) shows no quick pick. In the extended
  variant, when staging returns, it starts exactly one command: the standalone binary
  with the mode flag, the main path of that target and the staging arguments. In the lean
  variant, when \<open>getDfx\<close> returns an executable, it starts exactly one command: that
  executable with \<^verbatim>\<open>_language-service\<close> and the name of that target.
\<close>

theorem launchDfxProject_single_target:
  assumes "canister cfg = []"
    and "canisters dfxConfig = [(k, d)]"
  shows "quickPicks (trace (snd (launchDfxProject h cfg dfxConfig w))) = quickPicks (trace w) \<and>
         quickPicks (trace (snd (launchDfxProject_lean h cfg dfxConfig w))) = quickPicks (trace w) \<and>
         (\<forall>r. fst (copyIDLFiles h w) = Inr r \<longrightarrow>
            fst (launchDfxProject h cfg dfxConfig w) = Inr () \<and>
            started (trace (snd (launchDfxProject h cfg dfxConfig w))) =
              started (trace w) @
                [\<lparr>command = standaloneBinary cfg,
                  args = [Str ''--canister-main'', Str (main d)] @ map Str (idlArgs r)\<rparr>]) \<and>
         (\<forall>p. fst (getDfx_lean h cfg w) = Inr p \<longrightarrow>
            fst (launchDfxProject_lean h cfg dfxConfig w) = Inr () \<and>
            started (trace (snd (launchDfxProject_lean h cfg dfxConfig w))) =
              started (trace w) @ [\<lparr>command = p, args = [Str ''_language-service'', Str k]\<rparr>])"
proof -
  have a: "launchDfxProject h cfg dfxConfig w = start h cfg dfxConfig k w"
    using assms by (simp add: launchDfxProject_def)
  have b: "launchDfxProject_lean h cfg dfxConfig w = start_lean h cfg k w"
    using assms by (simp add: launchDfxProject_lean_def)
  have g: "getProp (canisters dfxConfig) k = Own d"
    using assms by (simp add: getProp_def)
  have c: "\<forall>p. fst (getDfx_lean h cfg w) = Inr p \<longrightarrow> fst (start_lean h cfg k w) = Inr ()"
    by (auto simp: start_lean_def launchClient_def split: prod.splits sum.splits)
  show ?thesis
    using g c
    by (simp add: a b start_quickPicks start_lean_quickPicks start_started start_outcome
          start_lean_started)
qed

theorem launchDfxProject_single_target_witness:
  "canister config0 = [] \<and> canisters dfxConfig0 = [(''main'', \<lparr>main = ''src/main.mo''\<rparr>)] \<and>
   fst (copyIDLFiles host0 world0) = Inr None \<and>
   fst (getDfx_lean host0 config0 world0) = Inr ''/usr/local/bin/dfx'' \<and>
   quickPicks (trace (snd (launchDfxProject host0 config0 dfxConfig0 world0))) = [] \<and>
   quickPicks (trace (snd (launchDfxProject_lean host0 config0 dfxConfig0 world0))) = [] \<and>
   started (trace (snd (launchDfxProject host0 config0 dfxConfig0 world0))) =
     [\<lparr>command = ''mo-ide'', args = [Str ''--canister-main'', Str ''src/main.mo'']\<rparr>] \<and>
   started (trace (snd (launchDfxProject_lean host0 config0 dfxConfig0 world0))) =
     [\<lparr>command = ''/usr/local/bin/dfx'', args = [Str ''_language-service'', Str ''main'']\<rparr>]"
proof -
  have 1: "canister config0 = []"
    by (simp add: config0_def)
  have 2: "canisters dfxConfig0 = [(''main'', \<lparr>main = ''src/main.mo''\<rparr>)]"
    by (simp add: dfxConfig0_def)
  have 3: "fst (copyIDLFiles host0 world0) = Inr None"
    by (simp add: example_defs model_defs)
  have 4: "fst (getDfx_lean host0 config0 world0) = Inr ''/usr/local/bin/dfx''"
    by (simp add: example_defs model_defs)
  have 5: "trace world0 = []" "standaloneBinary config0 = ''mo-ide''"
    by (simp_all add: example_defs)
  show ?thesis
    using launchDfxProject_single_target [OF 1 2, of host0 world0] 1 2 3 4 5
    by (simp add: idlArgs_def)
qed

text \<open>
  Claim C6. With a configured target name that is not empty and names a target of the
  manifest, \<open>launchDfxProject\<close> (in both variants) shows no quick pick, however many
  targets there are, and any command it starts is the one of the configured target: in
  the extended variant the mode flag with the main path of that target, in the lean
  variant \<^verbatim>\<open>_language-service\<close> with its name.
\<close>

theorem launchDfxProject_configured_target:
  assumes "canister cfg \<noteq> []"
    and "map_of (canisters dfxConfig) (canister cfg) = Some d"
  shows "quickPicks (trace (snd (launchDfxProject h cfg dfxConfig w))) = quickPicks (trace w) \<and>
         quickPicks (trace (snd (launchDfxProject_lean h cfg dfxConfig w))) = quickPicks (trace w) \<and>
         started (trace (snd (launchDfxProject h cfg dfxConfig w))) =
           started (trace w) @
             (case fst (copyIDLFiles h w) of
                Inl e \<Rightarrow> []
              | Inr r \<Rightarrow>
                  [\<lparr>command = standaloneBinary cfg,
                    args = [Str ''--canister-main'', Str (main d)] @ map Str (idlArgs r)\<rparr>]) \<and>
         started (trace (snd (launchDfxProject_lean h cfg dfxConfig w))) =
           started (trace w) @
             (case fst (getDfx_lean h cfg w) of
                Inl e \<Rightarrow> []
              | Inr p \<Rightarrow> [\<lparr>command = p, args = [Str ''_language-service'', Str (canister cfg)]\<rparr>])"
proof -
  have a: "launchDfxProject h cfg dfxConfig w = start h cfg dfxConfig (canister cfg) w"
    using assms by (simp add: launchDfxProject_def)
  have b: "launchDfxProject_lean h cfg dfxConfig w = start_lean h cfg (canister cfg) w"
    using assms by (simp add: launchDfxProject_lean_def)
  have g: "getProp (canisters dfxConfig) (canister cfg) = Own d"
    using assms by (simp add: getProp_def)
  show ?thesis
    using g
    by (simp add: a b start_quickPicks start_lean_quickPicks start_started start_lean_started
          split: sum.splits)
qed

theorem launchDfxProject_configured_target_witness:
  "canister (config0\<lparr>canister := ''beta''\<rparr>) = ''beta'' \<and>
   map_of (canisters dfxConfig2) ''beta'' = Some \<lparr>main = ''src/beta.mo''\<rparr> \<and>
   quickPicks (trace (snd (launchDfxProject host0 (config0\<lparr>canister := ''beta''\<rparr>) dfxConfig2 world0))) = [] \<and>
   quickPicks (trace (snd (launchDfxProject_lean host0 (config0\<lparr>canister := ''beta''\<rparr>) dfxConfig2 world0))) = [] \<and>
   started (trace (snd (launchDfxProject host0 (config0\<lparr>canister := ''beta''\<rparr>) dfxConfig2 world0))) =
     [\<lparr>command = ''mo-ide'', args = [Str ''--canister-main'', Str ''src/beta.mo'']\<rparr>] \<and>
   started (trace (snd (launchDfxProject_lean host0 (config0\<lparr>canister := ''beta''\<rparr>) dfxConfig2 world0))) =
     [\<lparr>command = ''/usr/local/bin/dfx'', args = [Str ''_language-service'', Str ''beta'']\<rparr>]"
proof -
  let ?cfg = "config0\<lparr>canister := ''beta''\<rparr>"
  have 1: "canister ?cfg \<noteq> []"
    by simp
  have 2: "map_of (canisters dfxConfig2) (canister ?cfg) = Some \<lparr>main = ''src/beta.mo''\<rparr>"
    by (simp add: dfxConfig2_def)
  have 3: "fst (copyIDLFiles host0 world0) = Inr None"
    by (simp add: example_defs model_defs)
  have 4: "fst (getDfx_lean host0 ?cfg world0) = Inr ''/usr/local/bin/dfx''"
    by (simp add: example_defs model_defs)
  have 5: "trace world0 = []" "standaloneBinary ?cfg = ''mo-ide''"
    by (simp_all add: example_defs)
  show ?thesis
    using launchDfxProject_configured_target [OF 1 2, of host0 world0] 2 3 4 5
    by (simp add: idlArgs_def)
qed

section \<open>Locating the executable in the lean variant\<close>

text \<open>
  Claim C7, as stated, fails: the search-path lookup fails and the configured path holds
  a directory, so it does not exist as a file; \<^verbatim>\<open>fs.existsSync\<close> is true all the same,
  no error message is shown and the server is started with the configured path as its
  executable.
\<close>

theorem configured_directory_launches_counterexample:
  "which_sync host_no_dfx (dfx config0) = None \<and>
   fs world_dfx_dir (dfx config0) = Some Dir \<and>
   fst (start_lean host_no_dfx config0 ''main'' world_dfx_dir) = Inr () \<and>
   errorMessages (trace (snd (start_lean host_no_dfx config0 ''main'' world_dfx_dir))) = [] \<and>
   started (trace (snd (start_lean host_no_dfx config0 ''main'' world_dfx_dir))) =
     [\<lparr>command = ''dfx'', args = [Str ''_language-service'', Str ''main'']\<rparr>] \<and>
   started (trace (snd (launchDfxProject_lean host_no_dfx config0 dfxConfig0 world_dfx_dir))) =
     [\<lparr>command = ''dfx'', args = [Str ''_language-service'', Str ''main'']\<rparr>]"
  by (simp add: example_defs model_defs)

text \<open>
  Claim C7, amended. When the search-path lookup of the configured \<^verbatim>\<open>dfx\<close> fails: if
  nothing exists at the configured path, neither a file nor a directory, \<open>getDfx\<close> shows
  an error message and throws, so that \<open>start\<close> throws before any command is started,
  and \<open>launchDfxProject\<close> starts no command however the target is chosen; if anything
  exists at the configured path, a file in particular, that path is the executable of
  the command started.
\<close>

theorem getDfx_lookup_failure:
  assumes "which_sync h (dfx cfg) = None"
  shows "getDfx_lean h cfg w =
           (if existsSync w (dfx cfg) then (Inr (dfx cfg), w)
            else (Inl (Error ''Failed to locate dfx''),
                  w\<lparr>trace := trace w
                       @ [ShowErrorMessage (''Failed to locate dfx at '' @ dfx cfg
                            @ '' check that dfx is installed or try changing motoko.dfx in settings'')]\<rparr>)) \<and>
         start_lean h cfg c w =
           (if existsSync w (dfx cfg)
            then launchClient \<lparr>command = dfx cfg, args = [Str ''_language-service'', Str c]\<rparr> w
            else (Inl (Error ''Failed to locate dfx''),
                  w\<lparr>trace := trace w
                       @ [ShowErrorMessage (''Failed to locate dfx at '' @ dfx cfg
                            @ '' check that dfx is installed or try changing motoko.dfx in settings'')]\<rparr>)) \<and>
         started (trace (snd (start_lean h cfg c w))) =
           started (trace w) @
             (if existsSync w (dfx cfg)
              then [\<lparr>command = dfx cfg, args = [Str ''_language-service'', Str c]\<rparr>] else []) \<and>
         (\<not> existsSync w (dfx cfg) \<longrightarrow>
            started (trace (snd (launchDfxProject_lean h cfg dfxConfig w))) = started (trace w))"
proof -
  have g: "getDfx_lean h cfg w =
           (if existsSync w (dfx cfg) then (Inr (dfx cfg), w)
            else (Inl (Error ''Failed to locate dfx''),
                  w\<lparr>trace := trace w
                       @ [ShowErrorMessage (''Failed to locate dfx at '' @ dfx cfg
                            @ '' check that dfx is installed or try changing motoko.dfx in settings'')]\<rparr>))"
    using assms by (simp add: getDfx_lean_def)
  have l: "\<not> existsSync w (dfx cfg) \<longrightarrow>
            started (trace (snd (launchDfxProject_lean h cfg dfxConfig w))) = started (trace w)"
  proof
    assume n: "\<not> existsSync w (dfx cfg)"
    have f: "fst (getDfx_lean h cfg (w\<lparr>trace := t\<rparr>)) = Inl (Error ''Failed to locate dfx'')" for t
      using assms n by (simp add: getDfx_lean_def existsSync_def)
    have f0: "fst (getDfx_lean h cfg w) = Inl (Error ''Failed to locate dfx'')"
      using f [of "trace w"] by simp
    show "started (trace (snd (launchDfxProject_lean h cfg dfxConfig w))) = started (trace w)"
      by (simp add: launchDfxProject_lean_def Let_def start_lean_started f f0 split: option.splits)
  qed
  show ?thesis
    using g l by (simp add: start_lean_def launchClient_def)
qed

theorem getDfx_lookup_failure_witness:
  "which_sync host_no_dfx (dfx config0) = None \<and>
   \<not> existsSync world0 (dfx config0) \<and>
   existsSync world_dfx_here (dfx config0) \<and>
   fst (start_lean host_no_dfx config0 ''main'' world0) = Inl (Error ''Failed to locate dfx'') \<and>
   trace (snd (start_lean host_no_dfx config0 ''main'' world0)) =
     [ShowErrorMessage ''Failed to locate dfx at dfx check that dfx is installed or try changing motoko.dfx in settings''] \<and>
   started (trace (snd (launchDfxProject_lean host_no_dfx config0 dfxConfig0 world0))) = [] \<and>
   started (trace (snd (start_lean host_no_dfx config0 ''main'' world_dfx_here))) =
     [\<lparr>command = ''dfx'', args = [Str ''_language-service'', Str ''main'']\<rparr>]"
proof -
  have 1: "which_sync host_no_dfx (dfx config0) = None"
    by (simp add: example_defs)
  have 2: "\<not> existsSync world0 (dfx config0)"
    by (simp add: example_defs existsSync_def)
  have 3: "existsSync world_dfx_here (dfx config0)"
    by (simp add: example_defs existsSync_def)
  have 4: "trace world0 = []" "trace world_dfx_here = []" "dfx config0 = ''dfx''"
    by (simp_all add: example_defs)
  show ?thesis
    using getDfx_lookup_failure [OF 1, of world0 "''main''" dfxConfig0]
      getDfx_lookup_failure [OF 1, of world_dfx_here "''main''" dfxConfig0] 1 2 3 4
    by (simp add: launchClient_def)
qed

section \<open>Interface staging\<close>

text \<open>
  Claim C10, as stated, fails: for an entry whose identifier is the empty string the
  identifier in the staged file name, the empty string again, equals the one in the
  arguments.
\<close>

theorem staged_name_empty_identifier_counterexample:
  "getDfxManifest host0 world_empty_id = Some manifest_empty_id \<and>
   fst (copyIDLFiles host0 world_empty_id) =
     Inr (Some \<lparr>idlPath = ''/ws/.vscode/idl'', canisterMappings = [(''main'', [])]\<rparr>) \<and>
   trace (snd (copyIDLFiles host0 world_empty_id)) =
     [MkDir ''/ws/.vscode/idl'',
      CopyFile ''/ws/canisters/main/main.did'' ''/ws/.vscode/idl/.did''] \<and>
   idlArgs (Some \<lparr>idlPath = ''/ws/.vscode/idl'', canisterMappings = [(''main'', [])]\<rparr>) =
     [''--actor-idl'', ''/ws/.vscode/idl'', ''--actor-alias'', ''main'', []] \<and>
   slice 3 (canister_id (snd (hd (manifest_canisters manifest_empty_id)))) =
     canister_id (snd (hd (manifest_canisters manifest_empty_id)))"
  by (simp add: example_defs model_defs)

text \<open>
  Claim C10, amended. The copies staging makes, whether or not it completes, are those of
  the first entries of the interface manifest in turn, each from the artifact path of the
  entry to the scratch directory under the name of its identifier without the first
  three characters, followed by \<^verbatim>\<open>.did\<close>. When staging returns files every entry has
  been copied, and the staging arguments carry the alias and the whole identifier of
  every entry. For every entry whose identifier is not empty the two identifiers differ.
\<close>

theorem copyIDLFiles_staged_names:
  assumes "getOrCreateIDLPath h w = (Some p, w1)"
    and "getDfxManifest h w1 = Some m"
  shows "(\<exists>n. trace (snd (copyIDLFiles h w)) =
                trace w1 @ map (stagedCopy h p) (take n (manifest_canisters m))) \<and>
         (\<forall>r. fst (copyIDLFiles h w) = Inr (Some r) \<longrightarrow>
            trace (snd (copyIDLFiles h w)) = trace w1 @ map (stagedCopy h p) (manifest_canisters m) \<and>
            idlArgs (Some r) =
              [''--actor-idl'', p]
              @ concat (map (\<lambda>e. [''--actor-alias'', fst e, canister_id (snd e)])
                          (manifest_canisters m))) \<and>
         (\<forall>e \<in> set (manifest_canisters m).
            stagedCopy h p e =
              CopyFile (candid_path (snd e))
                (path_join h [p, slice 3 (canister_id (snd e)) @ ''.did'']) \<and>
            (canister_id (snd e) \<noteq> [] \<longrightarrow> slice 3 (canister_id (snd e)) \<noteq> canister_id (snd e)))"
proof -
  obtain x w2 where c: "copyEntries h p (manifest_canisters m) [] w1 = (x, w2)"
    by (cases "copyEntries h p (manifest_canisters m) [] w1")
  have k: "copyIDLFiles h w =
             (case x of Inl e \<Rightarrow> (Inl e, w2)
              | Inr ms \<Rightarrow> (Inr (Some \<lparr>idlPath = p, canisterMappings = ms\<rparr>), w2))"
    using assms c by (simp add: copyIDLFiles_def)
  have w2: "snd (copyIDLFiles h w) = w2"
    using k by (simp split: sum.splits)
  have pre: "\<exists>n. trace (snd (copyIDLFiles h w)) =
                trace w1 @ map (stagedCopy h p) (take n (manifest_canisters m))"
    unfolding w2 using c by (rule copyEntries_trace)
  have full: "trace (snd (copyIDLFiles h w)) = trace w1 @ map (stagedCopy h p) (manifest_canisters m) \<and>
            idlArgs (Some r) =
              [''--actor-idl'', p]
              @ concat (map (\<lambda>e. [''--actor-alias'', fst e, canister_id (snd e)])
                          (manifest_canisters m))"
    if r: "fst (copyIDLFiles h w) = Inr (Some r)" for r
  proof -
    obtain ms where x: "x = Inr ms" and r': "r = \<lparr>idlPath = p, canisterMappings = ms\<rparr>"
      using r k by (cases x) auto
    have s: "trace w2 = trace w1 @ map (stagedCopy h p) (manifest_canisters m)"
      "ms = map (\<lambda>e. (fst e, canister_id (snd e))) (manifest_canisters m)"
      using copyEntries_success [of h p "manifest_canisters m" "[]" w1 ms w2] c x by simp_all
    have i: "idlArgs (Some r) =
           [''--actor-idl'', p]
           @ concat (map (\<lambda>e. [''--actor-alias'', fst e, canister_id (snd e)]) (manifest_canisters m))"
      by (simp add: idlArgs_def r' s(2) comp_def)
    show ?thesis
      using s(1) i by (simp add: w2)
  qed
  have names: "\<forall>e \<in> set (manifest_canisters m).
            stagedCopy h p e =
              CopyFile (candid_path (snd e))
                (path_join h [p, slice 3 (canister_id (snd e)) @ ''.did'']) \<and>
            (canister_id (snd e) \<noteq> [] \<longrightarrow> slice 3 (canister_id (snd e)) \<noteq> canister_id (snd e))"
    by (simp add: slice_shorter stagedCopy_def)
  show ?thesis
    using pre full names by blast
qed

theorem copyIDLFiles_staged_names_witness:
  "getOrCreateIDLPath host0 world2 =
     (Some ''/ws/.vscode/idl'', snd (getOrCreateIDLPath host0 world2)) \<and>
   getDfxManifest host0 (snd (getOrCreateIDLPath host0 world2)) = Some manifest0 \<and>
   fst (copyIDLFiles host0 world2) =
     Inr (Some \<lparr>idlPath = ''/ws/.vscode/idl'', canisterMappings = [(''main'', ''ic:ABCD'')]\<rparr>) \<and>
   trace (snd (copyIDLFiles host0 world2)) =
     [MkDir ''/ws/.vscode/idl'',
      CopyFile ''/ws/canisters/main/main.did'' ''/ws/.vscode/idl/ABCD.did''] \<and>
   idlArgs (Some \<lparr>idlPath = ''/ws/.vscode/idl'', canisterMappings = [(''main'', ''ic:ABCD'')]\<rparr>) =
     [''--actor-idl'', ''/ws/.vscode/idl'', ''--actor-alias'', ''main'', ''ic:ABCD''] \<and>
   slice 3 ''ic:ABCD'' \<noteq> ''ic:ABCD''"
proof -
  let ?w1 = "snd (getOrCreateIDLPath host0 world2)"
  let ?r = "\<lparr>idlPath = ''/ws/.vscode/idl'', canisterMappings = [(''main'', ''ic:ABCD'')]\<rparr>"
  have 1: "getOrCreateIDLPath host0 world2 = (Some ''/ws/.vscode/idl'', ?w1)"
    by (simp add: example_defs model_defs)
  have 2: "getDfxManifest host0 ?w1 = Some manifest0"
    by (simp add: example_defs model_defs)
  have 3: "fst (copyIDLFiles host0 world2) = Inr (Some ?r)"
    by (simp add: example_defs model_defs)
  have 4: "trace ?w1 = [MkDir ''/ws/.vscode/idl'']"
    by (simp add: example_defs model_defs)
  have 5: "manifest_canisters manifest0 =
      [(''main'', \<lparr>candid_path = ''/ws/canisters/main/main.did'', canister_id = ''ic:ABCD''\<rparr>)]"
    "path_join host0 = slash_join"
    by (simp_all add: example_defs)
  show ?thesis
    using copyIDLFiles_staged_names [OF 1 2] 1 2 3 4 5
    by (simp add: slice_def stagedCopy_def)
qed

text \<open>
  Claim C1 fails on the code for one of its three failures. The interface manifest names
  an artifact that does not exist: \<^verbatim>\<open>copyFileSync\<close> throws inside the loop of
  \<open>copyIDLFiles\<close>, nothing catches it, and \<open>startServer\<close> ends with that exception
  after making the scratch directory, without starting a server command.
\<close>

theorem missing_artifact_aborts_launch:
  "isDfxProject host0 world1 = Some dfxConfig0 \<and>
   getDfxManifest host0 world1 = Some manifest0 \<and>
   fs world1 ''/ws/canisters/main/main.did'' = None \<and>
   fst (copyIDLFiles host0 world1) = Inl IOError \<and>
   fst (startServer host0 config0 world1) = Inl IOError \<and>
   trace (snd (startServer host0 config0 world1)) = [MkDir ''/ws/.vscode/idl''] \<and>
   started (trace (snd (startServer host0 config0 world1))) = []"
  by (simp add: example_defs model_defs)

section \<open>A configured name that names no target\<close>

text \<open>
  Claim C9, as stated, fails: the configured name \<^verbatim>\<open>toString\<close> names no target, but it
  is inherited from \<^verbatim>\<open>Object.prototype\<close>, so reading \<^verbatim>\<open>.main\<close> throws nothing and the
  server is started with \<^verbatim>\<open>undefined\<close> as its main path.
\<close>

theorem inherited_name_launches_counterexample:
  "canister (config0\<lparr>canister := ''toString''\<rparr>) = ''toString'' \<and>
   map_of (canisters dfxConfig0) ''toString'' = None \<and>
   isDfxProject host0 world0 = Some dfxConfig0 \<and>
   fst (startServer host0 (config0\<lparr>canister := ''toString''\<rparr>) world0) = Inr () \<and>
   started (trace (snd (startServer host0 (config0\<lparr>canister := ''toString''\<rparr>) world0))) =
     [\<lparr>command = ''mo-ide'', args = [Str ''--canister-main'', Undefined]\<rparr>]"
  by (simp add: example_defs model_defs)

text \<open>
  Claim C9, amended. In the extended variant, with a configured name that is not empty,
  names no target of the manifest and is not a name inherited from \<^verbatim>\<open>Object.prototype\<close>,
  \<open>launchDfxProject\<close> goes to \<open>start\<close> with no membership check and ends with an
  exception: the \<^verbatim>\<open>TypeError\<close> of reading \<^verbatim>\<open>.main\<close> from \<^verbatim>\<open>undefined\<close> when staging
  returns, the exception of staging otherwise. No server command is started, no quick
  pick and no error message is shown.
\<close>

theorem start_missing_target:
  assumes "canister cfg \<noteq> []"
    and "map_of (canisters dfxConfig) (canister cfg) = None"
    and "canister cfg \<notin> set objectPrototypeKeys"
  shows "fst (launchDfxProject h cfg dfxConfig w) =
           (case fst (copyIDLFiles h w) of Inl e \<Rightarrow> Inl e | Inr r \<Rightarrow> Inl TypeError) \<and>
         fst (launchDfxProject h cfg dfxConfig w) \<noteq> Inr () \<and>
         started (trace (snd (launchDfxProject h cfg dfxConfig w))) = started (trace w) \<and>
         quickPicks (trace (snd (launchDfxProject h cfg dfxConfig w))) = quickPicks (trace w) \<and>
         errorMessages (trace (snd (launchDfxProject h cfg dfxConfig w))) = errorMessages (trace w)"
proof -
  have a: "launchDfxProject h cfg dfxConfig w = start h cfg dfxConfig (canister cfg) w"
    using assms(1) by (simp add: launchDfxProject_def)
  have g: "getProp (canisters dfxConfig) (canister cfg) = Absent"
    using assms(2,3) by (simp add: getProp_def)
  have f: "fst (start h cfg dfxConfig (canister cfg) w) =
           (case fst (copyIDLFiles h w) of Inl e \<Rightarrow> Inl e | Inr r \<Rightarrow> Inl TypeError)"
    using g by (simp add: start_outcome split: sum.splits)
  have n: "fst (start h cfg dfxConfig (canister cfg) w) \<noteq> Inr ()"
    unfolding f by (simp split: sum.splits)
  have t: "started (trace (snd (start h cfg dfxConfig (canister cfg) w))) = started (trace w)"
    using g by (simp add: start_started split: sum.splits)
  show ?thesis
    unfolding a using f n t start_quickPicks start_errorMessages by blast
qed

theorem start_missing_target_witness:
  "canister (config0\<lparr>canister := ''nope''\<rparr>) = ''nope'' \<and>
   map_of (canisters dfxConfig0) ''nope'' = None \<and>
   ''nope'' \<notin> set objectPrototypeKeys \<and>
   fst (launchDfxProject host0 (config0\<lparr>canister := ''nope''\<rparr>) dfxConfig0 world0) = Inl TypeError \<and>
   started (trace (snd (launchDfxProject host0 (config0\<lparr>canister := ''nope''\<rparr>) dfxConfig0 world0))) = [] \<and>
   quickPicks (trace (snd (launchDfxProject host0 (config0\<lparr>canister := ''nope''\<rparr>) dfxConfig0 world0))) = [] \<and>
   errorMessages (trace (snd (launchDfxProject host0 (config0\<lparr>canister := ''nope''\<rparr>) dfxConfig0 world0))) = []"
proof -
  let ?cfg = "config0\<lparr>canister := ''nope''\<rparr>"
  have 1: "canister ?cfg \<noteq> []"
    by simp
  have 2: "map_of (canisters dfxConfig0) (canister ?cfg) = None"
    by (simp add: dfxConfig0_def)
  have 3: "canister ?cfg \<notin> set objectPrototypeKeys"
    by (simp add: objectPrototypeKeys_def)
  have 4: "fst (copyIDLFiles host0 world0) = Inr None"
    by (simp add: example_defs model_defs)
  have 5: "trace world0 = []"
    by (simp add: example_defs)
  show ?thesis
    using start_missing_target [OF 1 2 3, of host0 world0] 2 3 4 5
    by simp
qed

section \<open>The extra arguments\<close>



end
